theory Spec2Isabelle
  imports Main "HOL-Library.Extended_Nat"
begin

section \<open>The LRU cache of the API key handler\<close>

text \<open>
  The generic class \<open>LRUCache\<close> keeps a JavaScript \<open>Map\<close> from keys to entries
  \<open>{ value, lastAccessed }\<close> and a bound \<open>maxSize\<close>. A JavaScript \<open>Map\<close> iterates in
  insertion order, holds every key once, keeps the position of a key whose value is
  replaced and appends a new key at the end: it is modelled as an association list.
  \<open>Date.now()\<close> is a reading of the wall clock (milliseconds, a natural number); every
  operation that reads the clock takes the reading as its argument \<open>now\<close>. The scan of
  \<open>evictLRU\<close> starts from \<open>Infinity\<close>, so the running minimum is an extended natural
  number. The field \<open>value\<close> is named \<open>val\<close> here.
\<close>

record 'v entry =
  val :: 'v
  lastAccessed :: nat

type_synonym ('k, 'v) jsmap = "('k \<times> 'v entry) list"

record ('k, 'v) lrucache =
  cache :: "('k, 'v) jsmap"
  maxSize :: int

subsection \<open>The operations of \<open>Map\<close> that the class uses\<close>

fun Map_get :: "('k, 'v) jsmap \<Rightarrow> 'k \<Rightarrow> 'v entry option" where
  "Map_get [] key = None"
| "Map_get ((k, e) # rest) key = (if k = key then Some e else Map_get rest key)"

fun Map_has :: "('k, 'v) jsmap \<Rightarrow> 'k \<Rightarrow> bool" where
  "Map_has [] key = False"
| "Map_has ((k, e) # rest) key = (if k = key then True else Map_has rest key)"

fun Map_set :: "('k, 'v) jsmap \<Rightarrow> 'k \<Rightarrow> 'v entry \<Rightarrow> ('k, 'v) jsmap" where
  "Map_set [] key e' = [(key, e')]"
| "Map_set ((k, e) # rest) key e' =
     (if k = key then (k, e') # rest else (k, e) # Map_set rest key e')"

fun Map_delete :: "('k, 'v) jsmap \<Rightarrow> 'k \<Rightarrow> ('k, 'v) jsmap" where
  "Map_delete [] key = []"
| "Map_delete ((k, e) # rest) key =
     (if k = key then rest else (k, e) # Map_delete rest key)"

definition Map_size :: "('k, 'v) jsmap \<Rightarrow> nat" where
  "Map_size m = length m"

definition Map_keys :: "('k, 'v) jsmap \<Rightarrow> 'k list" where
  "Map_keys m = map fst m"

text \<open>A \<open>Map\<close> never holds a key twice.\<close>

definition wellformed :: "('k, 'v) lrucache \<Rightarrow> bool" where
  "wellformed c = distinct (Map_keys (cache c))"

subsection \<open>The class\<close>

definition LRUCache_new :: "int \<Rightarrow> ('k, 'v) lrucache" where
  "LRUCache_new n = \<lparr>cache = [], maxSize = n\<rparr>"

text \<open>
  \<open>get\<close> writes the clock reading into the entry it finds (the entry object is mutated
  in place, so its position in the map stays) and returns its value.
\<close>

definition LRUCache_get ::
  "('k, 'v) lrucache \<Rightarrow> 'k \<Rightarrow> nat \<Rightarrow> 'v option \<times> ('k, 'v) lrucache" where
  "LRUCache_get c key now =
     (case Map_get (cache c) key of
        Some e \<Rightarrow>
          (Some (val e), c\<lparr>cache := Map_set (cache c) key (e\<lparr>lastAccessed := now\<rparr>)\<rparr>)
      | None \<Rightarrow> (None, c))"

definition LRUCache_has :: "('k, 'v) lrucache \<Rightarrow> 'k \<Rightarrow> bool" where
  "LRUCache_has c key = Map_has (cache c) key"

definition LRUCache_size :: "('k, 'v) lrucache \<Rightarrow> nat" where
  "LRUCache_size c = Map_size (cache c)"

text \<open>
  The loop of \<open>evictLRU\<close> over \<open>this.cache.entries()\<close>, with its two variables
  \<open>oldestKey\<close> (\<open>undefined\<close> is \<open>None\<close>) and \<open>oldestTime\<close>. A key is never
  \<open>undefined\<close> itself: the keys of the one cache of the module are user id strings.
\<close>

fun scanOldest :: "('k, 'v) jsmap \<Rightarrow> 'k option \<Rightarrow> enat \<Rightarrow> 'k option \<times> enat" where
  "scanOldest [] oldestKey oldestTime = (oldestKey, oldestTime)"
| "scanOldest ((key, e) # rest) oldestKey oldestTime =
     (if enat (lastAccessed e) < oldestTime
      then scanOldest rest (Some key) (enat (lastAccessed e))
      else scanOldest rest oldestKey oldestTime)"

text \<open>
  \<open>evictLRU\<close> returns the cache and the key it has logged as evicted, if any
  (the \<open>lru_cache_eviction\<close> event).
\<close>

definition LRUCache_evictLRU ::
  "('k, 'v) lrucache \<Rightarrow> ('k, 'v) lrucache \<times> 'k option" where
  "LRUCache_evictLRU c =
     (case fst (scanOldest (cache c) None \<infinity>) of
        None \<Rightarrow> (c, None)
      | Some oldestKey \<Rightarrow> (c\<lparr>cache := Map_delete (cache c) oldestKey\<rparr>, Some oldestKey))"

definition LRUCache_set ::
  "('k, 'v) lrucache \<Rightarrow> 'k \<Rightarrow> 'v \<Rightarrow> nat \<Rightarrow> ('k, 'v) lrucache \<times> 'k option" where
  "LRUCache_set c key v now =
     (let (c1, evicted) =
            (if maxSize c \<le> int (Map_size (cache c)) \<and> \<not> Map_has (cache c) key
             then LRUCache_evictLRU c else (c, None))
      in (c1\<lparr>cache := Map_set (cache c1) key \<lparr>val = v, lastAccessed = now\<rparr>\<rparr>, evicted))"

subsection \<open>Sequences of operations\<close>

datatype ('k, 'v) cache_op =
  OpGet 'k nat
| OpSet 'k 'v nat
| OpHas 'k

fun apply_op :: "('k, 'v) lrucache \<Rightarrow> ('k, 'v) cache_op \<Rightarrow> ('k, 'v) lrucache" where
  "apply_op c (OpGet key now) = snd (LRUCache_get c key now)"
| "apply_op c (OpSet key v now) = fst (LRUCache_set c key v now)"
| "apply_op c (OpHas key) = (let b = LRUCache_has c key in c)"

fun run_ops :: "('k, 'v) lrucache \<Rightarrow> ('k, 'v) cache_op list \<Rightarrow> ('k, 'v) lrucache" where
  "run_ops c [] = c"
| "run_ops c (op # ops) = run_ops (apply_op c op) ops"

text \<open>
  The scenario of the specification: a cache of capacity 2, \<open>set(u1)\<close>, \<open>set(u2)\<close>,
  \<open>get(u1)\<close>, \<open>set(u3)\<close>, with the four clock readings of the four calls. The result
  is the key that the last \<open>set\<close> evicts.
\<close>

definition touch_scenario ::
  "'k \<Rightarrow> 'k \<Rightarrow> 'k \<Rightarrow> 'v \<Rightarrow> 'v \<Rightarrow> 'v \<Rightarrow> nat \<Rightarrow> nat \<Rightarrow> nat \<Rightarrow> nat \<Rightarrow> 'k option" where
  "touch_scenario u1 u2 u3 v1 v2 v3 t1 t2 t3 t4 =
     (let c1 = fst (LRUCache_set (LRUCache_new 2) u1 v1 t1);
          c2 = fst (LRUCache_set c1 u2 v2 t2);
          c3 = snd (LRUCache_get c2 u1 t3)
      in snd (LRUCache_set c3 u3 v3 t4))"

section \<open>The server instances\<close>

text \<open>
  \<open>serverCache\<close> is the one cache of the module, from user ids to \<open>McpServer\<close>
  objects. An object is known by its reference: the \<open>n\<close>-th object that
  \<open>getOrCreateServer\<close> constructs has the reference \<open>n\<close>, and it keeps the user id
  and the email its handlers close over. The state of the module is the cache, the
  number of objects constructed so far and the eviction events logged so far.
\<close>

record mcpserver =
  ref :: nat
  boundUserId :: string
  boundEmail :: string

record module_state =
  serverCache :: "(string, mcpserver) lrucache"
  servers_built :: nat
  eviction_log :: "string list"



definition getOrCreateServer ::
  "module_state \<Rightarrow> string \<Rightarrow> string \<Rightarrow> nat \<Rightarrow> mcpserver \<times> module_state" where
  "getOrCreateServer st userId email now =
     (case LRUCache_get (serverCache st) userId now of
        (Some cached, c) \<Rightarrow> (cached, st\<lparr>serverCache := c\<rparr>)
      | (None, c) \<Rightarrow>
          (let server = \<lparr>ref = servers_built st, boundUserId = userId, boundEmail = email\<rparr>;
               (c', evicted) = LRUCache_set c userId server now
           in (server,
               st\<lparr>serverCache := c',
                  servers_built := Suc (servers_built st),
                  eviction_log :=
                    eviction_log st @ (case evicted of None \<Rightarrow> [] | Some k \<Rightarrow> [k])\<rparr>)))"

section \<open>JSON values and the JavaScript operators used on them\<close>

text \<open>
  A value that \<open>request.json()\<close> can return. Numbers are integers here (fractions and
  \<open>NaN\<close> are left out). The JavaScript \<open>undefined\<close> is \<open>None\<close> of \<open>json option\<close>.
\<close>

datatype json =
  JNull
| JBool bool
| JNum int
| JStr string
| JArr "json list"
| JObj "(string \<times> json) list"

text \<open>
  \<open>x.name\<close> for an \<open>x\<close> that is neither \<open>null\<close> nor \<open>undefined\<close>, for the property
  names this module reads (none of them is a property of a string, a number, a boolean
  or an array, so only objects have them). Reading a property of \<open>null\<close> throws; the
  callers below treat \<open>null\<close> before they call \<open>member\<close>.
\<close>

fun member :: "json \<Rightarrow> string \<Rightarrow> json option" where
  "member (JObj props) name = map_of props name"
| "member j name = None"

text \<open>\<open>x?.name\<close>\<close>

definition optional_member :: "json option \<Rightarrow> string \<Rightarrow> json option" where
  "optional_member x name =
     (case x of None \<Rightarrow> None | Some JNull \<Rightarrow> None | Some j \<Rightarrow> member j name)"

fun truthy :: "json option \<Rightarrow> bool" where
  "truthy None = False"
| "truthy (Some JNull) = False"
| "truthy (Some (JBool b)) = b"
| "truthy (Some (JNum n)) = (n \<noteq> 0)"
| "truthy (Some (JStr s)) = (s \<noteq> [])"
| "truthy (Some (JArr xs)) = True"
| "truthy (Some (JObj props)) = True"

text \<open>\<open>x || d\<close>\<close>

definition or_default :: "json option \<Rightarrow> json \<Rightarrow> json" where
  "or_default x d = (case x of None \<Rightarrow> d | Some j \<Rightarrow> if truthy x then j else d)"

text \<open>
  An object literal some of whose properties may be \<open>undefined\<close>, as \<open>JSON.stringify\<close>
  writes it: the undefined properties are dropped.
\<close>

definition object_literal :: "(string \<times> json option) list \<Rightarrow> json" where
  "object_literal props =
     JObj (concat (map (\<lambda>(k, v). case v of None \<Rightarrow> [] | Some j \<Rightarrow> [(k, j)]) props))"

section \<open>Collaborators and responses\<close>

text \<open>
  What the module imports or is given and what is not part of it. A call that can throw
  returns \<open>Inl\<close> of the message of the thrown error.
  \<^item> \<open>ai_run emotion complexity\<close>: \<open>env.AI.run\<close> on the prompts that
    \<open>enhanceEmotionToThreeJS\<close> builds from the emotion and the complexity;
  \<^item> \<open>loadHtml path\<close>: the asset loader on \<open>env.ASSETS\<close>;
  \<^item> \<open>validateApiKey key\<close>: the user id and the email of a valid key;
  \<^item> \<open>String_of\<close>: the string conversion of a template literal;
  \<open>JSON_stringify\<close>: \<open>JSON.stringify(_, null, 2)\<close>;
  \<^item> \<open>documentation_of category\<close>: \<open>MOOD_PRIMITIVES_DOCUMENTATION[category]\<close>;
  \<^item> \<open>nullAccessMessage\<close>: the message of the \<open>TypeError\<close> for a property of \<open>null\<close>.
\<close>

datatype ai_response =
  ResponseNull
| ResponseObject string
| ResponseOther string

record env =
  ai_run :: "json option \<Rightarrow> json \<Rightarrow> string + ai_response"
  loadHtml :: "string \<Rightarrow> string + string"
  validateApiKey :: "string \<Rightarrow> string + (string \<times> string) option"
  String_of :: "json option \<Rightarrow> string"
  JSON_stringify :: "json \<Rightarrow> string"
  documentation_of :: "json \<Rightarrow> json option"
  nullAccessMessage :: string

text \<open>The calls made to the collaborators, in order.\<close>

datatype effect =
  AiRun "json option" json
| LoadHtml string

text \<open>
  A \<open>Response\<close>: its status and its body before \<open>JSON.stringify\<close> (the content type is
  always \<open>application/json\<close>).
\<close>

record response =
  status :: nat
  body :: json


definition jsonRpcResponse :: "json option \<Rightarrow> json \<Rightarrow> (int \<times> string) option \<Rightarrow> response" where
  "jsonRpcResponse rid result err =
     \<lparr>status = 200,
      body = object_literal
        ([(''jsonrpc'', Some (JStr ''2.0'')), (''id'', rid)] @
         (case err of
            Some (code, message) \<Rightarrow>
              [(''error'', Some (JObj [(''code'', JNum code), (''message'', JStr message)]))]
          | None \<Rightarrow> [(''result'', Some result)]))\<rparr>"

section \<open>The generation collaborator\<close>

text \<open>
  \<open>cleanupCode\<close> of the prompt enhancer. \<open>trim\<close> removes the ASCII white space at both
  ends (the other Unicode white space is left out); the fence is three backquotes.
\<close>

definition is_space :: "char \<Rightarrow> bool" where
  "is_space c = (c \<in> {CHR '' '', CHR 0x09, CHR 0x0A, CHR 0x0B, CHR 0x0C, CHR 0x0D})"

definition trim :: "string \<Rightarrow> string" where
  "trim s = rev (dropWhile is_space (rev (dropWhile is_space s)))"

definition startsWith :: "string \<Rightarrow> string \<Rightarrow> bool" where
  "startsWith s p = (take (length p) s = p)"

definition endsWith :: "string \<Rightarrow> string \<Rightarrow> bool" where
  "endsWith s p = (length p \<le> length s \<and> drop (length s - length p) s = p)"

definition fence :: string where
  "fence = replicate 3 (CHR 0x60)"

definition cleanupCode :: "string \<Rightarrow> string" where
  "cleanupCode code =
     (let cleaned = trim code;
          cleaned =
            (if startsWith cleaned (fence @ ''javascript'')
             then drop (length (fence @ ''javascript'')) cleaned
             else if startsWith cleaned (fence @ ''js'')
             then drop (length (fence @ ''js'')) cleaned
             else if startsWith cleaned fence then drop 3 cleaned
             else cleaned);
          cleaned =
            (if endsWith cleaned fence then take (length cleaned - 3) cleaned else cleaned)
      in trim cleaned)"

text \<open>
  \<open>enhanceEmotionToThreeJS\<close>: one call of \<open>ai.run\<close>; the text is the property
  \<open>response\<close> of an object that has one, the string conversion of anything else
  (\<open>"response" in null\<close> throws); then \<open>cleanupCode\<close>. The result comes with the calls
  made.
\<close>

definition enhanceEmotionToThreeJS ::
  "env \<Rightarrow> json option \<Rightarrow> json \<Rightarrow> (string + string) \<times> effect list" where
  "enhanceEmotionToThreeJS e emotion complexity =
     ((case ai_run e emotion complexity of
         Inl message \<Rightarrow> Inl message
       | Inr ResponseNull \<Rightarrow> Inl (nullAccessMessage e)
       | Inr (ResponseObject text) \<Rightarrow> Inr (cleanupCode text)
       | Inr (ResponseOther text) \<Rightarrow> Inr (cleanupCode text)),
      [AiRun emotion complexity])"

section \<open>The tools\<close>

text \<open>
  The input schema that \<open>getOrCreateServer\<close> registers for \<open>generate_mood_scene\<close>:
  \<open>emotion: z.string().min(1)\<close>, \<open>complexity: z.number().int().min(1).max(10).optional()\<close>,
  \<open>height: z.number().int().positive().optional()\<close>.
\<close>

definition inputSchema_generate_mood_scene :: "json \<Rightarrow> bool" where
  "inputSchema_generate_mood_scene args =
     (case args of
        JObj props \<Rightarrow>
          (case map_of props ''emotion'' of Some (JStr s) \<Rightarrow> 1 \<le> length s | _ \<Rightarrow> False)
          \<and> (case map_of props ''complexity'' of
                None \<Rightarrow> True | Some (JNum n) \<Rightarrow> 1 \<le> n \<and> n \<le> 10 | _ \<Rightarrow> False)
          \<and> (case map_of props ''height'' of
                None \<Rightarrow> True | Some (JNum n) \<Rightarrow> 0 < n | _ \<Rightarrow> False)
      | _ \<Rightarrow> False)"

text \<open>The tool result for the generated code, and the content of a text answer.\<close>

definition scene_result :: "string \<Rightarrow> json option \<Rightarrow> json \<Rightarrow> json" where
  "scene_result code emotion height =
     object_literal [(''code'', Some (JStr code)), (''emotion'', emotion), (''height'', Some height)]"

definition text_content :: "string \<Rightarrow> json" where
  "text_content t = JArr [JObj [(''type'', JStr ''text''), (''text'', JStr t)]]"



text \<open>
  \<open>handleToolsCall\<close> of the JSON-RPC transport, on the id and the params of the
  request.
\<close>

definition handleToolsCall :: "env \<Rightarrow> json option \<Rightarrow> json option \<Rightarrow> response \<times> effect list" where
  "handleToolsCall e rid params =
     (let p = or_default params (JObj []);
          name = member p ''name'';
          args = member p ''arguments''
      in if name = Some (JStr ''generate_mood_scene'') then
           (let emotion = or_default (optional_member args ''emotion'') (JStr []);
                complexity = or_default (optional_member args ''complexity'') (JNum 5);
                height = or_default (optional_member args ''height'') (JNum 600);
                (outcome, calls) = enhanceEmotionToThreeJS e (Some emotion) complexity
            in (case outcome of
                  Inr code \<Rightarrow>
                    (let result = scene_result code (Some emotion) height
                     in jsonRpcResponse rid
                          (JObj [(''content'', text_content (JSON_stringify e result)),
                                 (''structuredContent'', result)]) None)
                | Inl message \<Rightarrow>
                    jsonRpcResponse rid
                      (JObj [(''content'', text_content (''Error: '' @ message)),
                             (''isError'', JBool True)]) None,
                calls))
         else if name = Some (JStr ''learn_mood_primitives'') then
           (let category = or_default (optional_member args ''category'') (JStr ''all'');
                documentation = documentation_of e category
            in (jsonRpcResponse rid
                  (JObj [(''content'',
                     JArr [object_literal [(''type'', Some (JStr ''text'')),
                                           (''text'', documentation)]])]) None,
                []))
         else (jsonRpcResponse rid JNull
                 (Some (- 32602, ''Unknown tool: '' @ String_of e name)), []))"

section \<open>The JSON-RPC methods\<close>

definition SERVER_NAME :: string where
  "SERVER_NAME = ''3D Abstract Moodboard''"

definition SERVER_VERSION :: string where
  "SERVER_VERSION = ''1.0.0''"

definition UI_MIME_TYPE :: string where
  "UI_MIME_TYPE = ''text/html;profile=mcp-app''"

definition moodboard_uri :: string where
  "moodboard_uri = ''ui://3d-moodboard/moodboard.html''"

definition moodboard_name :: string where
  "moodboard_name = ''moodboard_widget''"

definition moodboard_description :: string where
  "moodboard_description =
     ''3D Abstract Moodboard - Interactive Three.js scene viewer with streaming code preview. '' @
     ''Renders abstract art installations from emotional prompts with OrbitControls for exploration.''"

definition moodboard_meta :: json where
  "moodboard_meta =
     JObj [(''ui'', JObj [(''csp'', JObj [(''connectDomains'', JArr []),
                                          (''resourceDomains'', JArr [])]),
                          (''prefersBorder'', JBool False)])]"

text \<open>\<open>TOOL_METADATA\<close> and \<open>getToolDescription\<close> of the tool descriptions.\<close>

fun tool_title :: "string \<Rightarrow> string" where
  "tool_title name =
     (if name = ''generate_mood_scene'' then ''Generate Mood Scene''
      else ''Learn Mood Primitives'')"

fun tool_description_parts :: "string \<Rightarrow> string list" where
  "tool_description_parts name =
     (if name = ''generate_mood_scene'' then
        [''Generates dynamic Three.js code for abstract 3D art installations based on an emotion or abstract concept.'',
         ''Returns JavaScript code for Three.js scene with geometries, materials, lighting, and animation, plus the emotion name and canvas height.'',
         ''Use this when the user wants to visualize an emotion, feeling, or abstract concept as an interactive 3D art installation.'',
         ''Note: The code is executed in a sandboxed canvas with OrbitControls. Complexity ranges from 1-10 and affects object count. Higher complexity may impact performance on mobile devices.'']
      else
        [''Retrieves documentation and code examples for abstract visual techniques available in the Three.js widget.'',
         ''Returns Markdown-formatted documentation covering geometries, materials, lighting effects, and animation patterns with code snippets.'',
         ''Use this to understand available Three.js primitives before generating a scene, or to learn specific techniques for visual effects.'',
         ''Note: This is a documentation-only tool with no visual output. Use generate_mood_scene to create actual scenes.''])"

definition getToolDescription :: "string \<Rightarrow> string" where
  "getToolDescription name =
     (case tool_description_parts name of
        [part1, part2, part3, part4] \<Rightarrow> part1 @ '' '' @ part2 @ '' '' @ part3 @ '' '' @ part4
      | _ \<Rightarrow> [])"

definition capabilities :: json where
  "capabilities =
     JObj [(''tools'', JObj []),
           (''prompts'', JObj [(''listChanged'', JBool True)]),
           (''resources'', JObj [(''listChanged'', JBool True)])]"

definition handleInitialize :: "json option \<Rightarrow> response" where
  "handleInitialize rid =
     jsonRpcResponse rid
       (JObj [(''protocolVersion'', JStr ''2024-11-05''),
              (''capabilities'', capabilities),
              (''serverInfo'', JObj [(''name'', JStr SERVER_NAME),
                                     (''version'', JStr SERVER_VERSION)])]) None"

definition handlePing :: "json option \<Rightarrow> response" where
  "handlePing rid = jsonRpcResponse rid (JObj []) None"

definition described :: "string \<Rightarrow> string \<Rightarrow> json" where
  "described ty d = JObj [(''type'', JStr ty), (''description'', JStr d)]"

definition handleToolsList :: "json option \<Rightarrow> response" where
  "handleToolsList rid =
     jsonRpcResponse rid
       (JObj [(''tools'', JArr
          [JObj [(''name'', JStr ''generate_mood_scene''),
                 (''title'', JStr (tool_title ''generate_mood_scene'')),
                 (''description'', JStr (getToolDescription ''generate_mood_scene'')),
                 (''inputSchema'', JObj
                    [(''type'', JStr ''object''),
                     (''properties'', JObj
                        [(''emotion'', described ''string'' ''The feeling or concept to visualize''),
                         (''complexity'', described ''number'' ''Scale from 1-10 (default: 5)''),
                         (''height'', described ''number'' ''Height in pixels (default: 600)'')]),
                     (''required'', JArr [JStr ''emotion''])]),
                 (''annotations'', JObj
                    [(''readOnlyHint'', JBool True), (''destructiveHint'', JBool False),
                     (''idempotentHint'', JBool False), (''openWorldHint'', JBool False)])],
           JObj [(''name'', JStr ''learn_mood_primitives''),
                 (''title'', JStr (tool_title ''learn_mood_primitives'')),
                 (''description'', JStr (getToolDescription ''learn_mood_primitives'')),
                 (''inputSchema'', JObj
                    [(''type'', JStr ''object''),
                     (''properties'', JObj
                        [(''category'', JObj
                           [(''type'', JStr ''string''),
                            (''enum'', JArr [JStr ''geometries'', JStr ''materials'',
                                             JStr ''lighting'', JStr ''animation'', JStr ''all'']),
                            (''description'', JStr ''Category of documentation (default: all)'')])]),
                     (''required'', JArr [])])]])]) None"

definition handleResourcesList :: "json option \<Rightarrow> response" where
  "handleResourcesList rid =
     jsonRpcResponse rid
       (JObj [(''resources'', JArr
          [JObj [(''uri'', JStr moodboard_uri), (''name'', JStr moodboard_name),
                 (''description'', JStr moodboard_description),
                 (''mimeType'', JStr UI_MIME_TYPE)]])]) None"

text \<open>
  \<open>handleResourcesRead\<close> does not catch what \<open>loadHtml\<close> throws: \<open>Inl\<close> is the error
  that leaves the function.
\<close>

definition handleResourcesRead ::
  "env \<Rightarrow> json option \<Rightarrow> json option \<Rightarrow> (string + response) \<times> effect list" where
  "handleResourcesRead e rid params =
     (let p = or_default params (JObj []);
          uri = member p ''uri''
      in if uri = Some (JStr moodboard_uri) then
           (case loadHtml e ''/moodboard.html'' of
              Inl message \<Rightarrow> (Inl message, [LoadHtml ''/moodboard.html''])
            | Inr html \<Rightarrow>
                (Inr (jsonRpcResponse rid
                   (JObj [(''contents'', JArr
                      [JObj [(''uri'', JStr moodboard_uri), (''mimeType'', JStr UI_MIME_TYPE),
                             (''text'', JStr html), (''_meta'', moodboard_meta)]])]) None),
                 [LoadHtml ''/moodboard.html'']))
         else (Inr (jsonRpcResponse rid JNull
                 (Some (- 32602, ''Unknown resource: '' @ String_of e uri))), []))"

definition handlePromptsList :: "json option \<Rightarrow> response" where
  "handlePromptsList rid =
     jsonRpcResponse rid
       (JObj [(''prompts'', JArr
          [JObj [(''name'', JStr ''visualize-feeling''),
                 (''title'', JStr ''Visualize a Feeling''),
                 (''description'', JStr ''Converts your current mood or a specific abstract concept into a unique 3D art installation.''),
                 (''argsSchema'', JObj
                    [(''type'', JStr ''object''),
                     (''properties'', JObj
                        [(''emotion'', described ''string'' ''The feeling you want to see''),
                         (''complexity'', described ''string'' ''Scale from 1-10 (optional)'')]),
                     (''required'', JArr [JStr ''emotion''])])]])]) None"

section \<open>The transport and the entry point\<close>

text \<open>
  \<open>handleHTTPTransport\<close> on the outcome of \<open>request.json()\<close>: \<open>Inl\<close> of the message when
  the body does not parse, \<open>Inr\<close> of the value otherwise. Whatever is thrown inside the
  \<open>try\<close> block ends in the one \<open>catch\<close>: the failed parse, the property read on a body
  that is \<open>null\<close>, and the error of a method handler.
\<close>

definition parse_error_response :: "string \<Rightarrow> response" where
  "parse_error_response message =
     jsonRpcResponse (Some (JStr ''error'')) JNull (Some (- 32700, ''Parse error: '' @ message))"

definition handleHTTPTransport :: "env \<Rightarrow> string + json \<Rightarrow> response \<times> effect list" where
  "handleHTTPTransport e parsed =
     (case parsed of
        Inl message \<Rightarrow> (parse_error_response message, [])
      | Inr JNull \<Rightarrow> (parse_error_response (nullAccessMessage e), [])
      | Inr jsonRpcRequest \<Rightarrow>
          (let rid = member jsonRpcRequest ''id'';
               meth = member jsonRpcRequest ''method'';
               params = member jsonRpcRequest ''params''
           in if member jsonRpcRequest ''jsonrpc'' \<noteq> Some (JStr ''2.0'') then
                (jsonRpcResponse rid JNull (Some (- 32600, ''Invalid Request'')), [])
              else if meth = Some (JStr ''initialize'') then (handleInitialize rid, [])
              else if meth = Some (JStr ''ping'') then (handlePing rid, [])
              else if meth = Some (JStr ''tools/list'') then (handleToolsList rid, [])
              else if meth = Some (JStr ''tools/call'') then handleToolsCall e rid params
              else if meth = Some (JStr ''resources/list'') then (handleResourcesList rid, [])
              else if meth = Some (JStr ''resources/read'') then
                (case handleResourcesRead e rid params of
                   (Inr r, calls) \<Rightarrow> (r, calls)
                 | (Inl message, calls) \<Rightarrow> (parse_error_response message, calls))
              else if meth = Some (JStr ''prompts/list'') then (handlePromptsList rid, [])
              else (jsonRpcResponse rid JNull
                      (Some (- 32601, ''Method not found: '' @ String_of e meth)), [])))"





section \<open>Test doubles\<close>

text \<open>
  Collaborators for the concrete evaluations below: \<open>ai.run\<close> and the asset loader
  answer with a fixed outcome, one API key (\<open>key-1\<close>, of user \<open>u1\<close>) is valid, and the
  string conversions are simple stand-ins.
\<close>

definition stub_env :: "string + ai_response \<Rightarrow> string + string \<Rightarrow> env" where
  "stub_env ai_outcome asset_outcome =
     \<lparr>ai_run = (\<lambda>emotion complexity. ai_outcome),
      loadHtml = (\<lambda>path. asset_outcome),
      validateApiKey =
        (\<lambda>key. Inr (if key = ''key-1'' then Some (''u1'', ''u1@example.org'') else None)),
      String_of = (\<lambda>x. case x of Some (JStr s) \<Rightarrow> s | _ \<Rightarrow> ''undefined''),
      JSON_stringify = (\<lambda>j. ''<json>''),
      documentation_of = (\<lambda>category. None),
      nullAccessMessage = ''Cannot read properties of null''\<rparr>"

definition tools_call_request :: "json \<Rightarrow> string \<Rightarrow> json \<Rightarrow> json" where
  "tools_call_request rid name args =
     JObj [(''jsonrpc'', JStr ''2.0''), (''id'', rid), (''method'', JStr ''tools/call''),
           (''params'', JObj [(''name'', JStr name), (''arguments'', args)])]"


section \<open>Properties of the map operations\<close>

lemma Map_has_keys: "Map_has m key \<longleftrightarrow> key \<in> set (Map_keys m)"
  by (induction m) (auto simp: Map_keys_def)

lemma Map_get_None: "Map_get m key = None \<longleftrightarrow> key \<notin> set (Map_keys m)"
  by (induction m) (force simp: Map_keys_def)+

lemma Map_get_Some_mem: "Map_get m key = Some e \<Longrightarrow> (key, e) \<in> set m"
  by (induction m) (auto split: if_splits)

lemma Map_keys_set_present:
  "key \<in> set (Map_keys m) \<Longrightarrow> Map_keys (Map_set m key e) = Map_keys m"
  by (induction m) (force simp: Map_keys_def)+

lemma Map_keys_set_absent:
  "key \<notin> set (Map_keys m) \<Longrightarrow> Map_keys (Map_set m key e) = Map_keys m @ [key]"
  by (induction m) (auto simp: Map_keys_def)

lemma Map_get_set: "Map_get (Map_set m key e) k = (if k = key then Some e else Map_get m k)"
  by (induction m) auto

lemma Map_keys_delete:
  "distinct (Map_keys m) \<Longrightarrow> Map_keys (Map_delete m key) = removeAll key (Map_keys m)"
  by (induction m) (auto simp: Map_keys_def)

lemma Map_size_delete:
  "key \<in> set (Map_keys m) \<Longrightarrow> Suc (Map_size (Map_delete m key)) = Map_size m"
  by (induction m) (force simp: Map_keys_def Map_size_def)+

lemma Map_delete_decomp:
  "k \<notin> fst ` set pre \<Longrightarrow> Map_delete (pre @ (k, e) # post) k = pre @ post"
  by (induction pre) auto

section \<open>The scan and the eviction\<close>

lemma scanOldest_keep:
  "\<forall>x\<in>set xs. ot \<le> enat (lastAccessed (snd x)) \<Longrightarrow> scanOldest xs ok ot = (ok, ot)"
  by (induction xs arbitrary: ok ot) (auto simp: not_less[symmetric])

lemma scanOldest_first_min:
  assumes "\<forall>x\<in>set pre. lastAccessed e < lastAccessed (snd x)"
    and "\<forall>x\<in>set post. lastAccessed e \<le> lastAccessed (snd x)"
    and "enat (lastAccessed e) < ot"
  shows "scanOldest (pre @ (k, e) # post) ok ot = (Some k, enat (lastAccessed e))"
  using assms
proof (induction pre arbitrary: ok ot)
  case Nil
  then show ?case by (simp add: scanOldest_keep)
next
  case (Cons x pre)
  obtain kx ex where x: "x = (kx, ex)" by (cases x)
  from Cons.prems have lt: "enat (lastAccessed e) < enat (lastAccessed ex)"
    by (simp add: x)
  show ?case
    using Cons.IH[of "enat (lastAccessed ex)" "Some kx"] Cons.IH[of ot ok] Cons.prems lt
    by (simp add: x)
qed

lemma first_min_exists:
  "xs \<noteq> [] \<Longrightarrow> \<exists>pre k e post. xs = pre @ (k, e) # post
      \<and> (\<forall>x\<in>set pre. lastAccessed e < lastAccessed (snd x))
      \<and> (\<forall>x\<in>set post. lastAccessed e \<le> lastAccessed (snd x))"
proof (induction xs)
  case Nil
  then show ?case by simp
next
  case (Cons x xs)
  obtain kx ex where x: "x = (kx, ex)" by (cases x)
  show ?case
  proof (cases "xs = []")
    case True
    then have "x # xs = [] @ (kx, ex) # []" by (simp add: x)
    then show ?thesis by (metis empty_iff empty_set)
  next
    case False
    with Cons.IH obtain pre k e post where d: "xs = pre @ (k, e) # post"
      "\<forall>x\<in>set pre. lastAccessed e < lastAccessed (snd x)"
      "\<forall>x\<in>set post. lastAccessed e \<le> lastAccessed (snd x)" by blast
    show ?thesis
    proof (cases "lastAccessed ex \<le> lastAccessed e")
      case True
      have "x # xs = [] @ (kx, ex) # xs" by (simp add: x)
      moreover have "\<forall>y\<in>set xs. lastAccessed ex \<le> lastAccessed (snd y)"
        using d True by (auto simp: less_imp_le order_trans dest!: bspec)
      ultimately show ?thesis by (metis empty_iff empty_set)
    next
      case False
      have "x # xs = (x # pre) @ (k, e) # post" by (simp add: d)
      moreover have "\<forall>y\<in>set (x # pre). lastAccessed e < lastAccessed (snd y)"
        using d False by (simp add: x)
      ultimately show ?thesis using d(3) by blast
    qed
  qed
qed


lemma evictLRU_empty: "cache c = [] \<Longrightarrow> LRUCache_evictLRU c = (c, None)"
  by (simp add: LRUCache_evictLRU_def)

lemma evictLRU_decomp:
  assumes "wellformed c" and "cache c = pre @ (k, e) # post"
    and "\<forall>x\<in>set pre. lastAccessed e < lastAccessed (snd x)"
    and "\<forall>x\<in>set post. lastAccessed e \<le> lastAccessed (snd x)"
  shows "LRUCache_evictLRU c = (c\<lparr>cache := pre @ post\<rparr>, Some k)"
proof -
  have "scanOldest (cache c) None \<infinity> = (Some k, enat (lastAccessed e))"
    using assms(2-4) scanOldest_first_min[of pre e post \<infinity> k None] by simp
  moreover have "k \<notin> fst ` set pre"
    using assms(1,2) by (auto simp: wellformed_def Map_keys_def)
  ultimately show ?thesis
    using assms(2) by (simp add: LRUCache_evictLRU_def Map_delete_decomp)
qed

lemma evictLRU_nonempty:
  assumes "wellformed c" and "cache c \<noteq> []"
  shows "\<exists>pre k e post. cache c = pre @ (k, e) # post
      \<and> (\<forall>x\<in>set pre. lastAccessed e < lastAccessed (snd x))
      \<and> (\<forall>x\<in>set post. lastAccessed e \<le> lastAccessed (snd x))
      \<and> LRUCache_evictLRU c = (c\<lparr>cache := pre @ post\<rparr>, Some k)"
proof -
  from first_min_exists[OF assms(2)] obtain pre k e post where d:
    "cache c = pre @ (k, e) # post"
    "\<forall>x\<in>set pre. lastAccessed e < lastAccessed (snd x)"
    "\<forall>x\<in>set post. lastAccessed e \<le> lastAccessed (snd x)" by blast
  from evictLRU_decomp[OF assms(1) d] d show ?thesis by blast
qed

lemma set_present:
  "Map_has (cache c) key \<Longrightarrow>
   LRUCache_set c key v now =
     (c\<lparr>cache := Map_set (cache c) key \<lparr>val = v, lastAccessed = now\<rparr>\<rparr>, None)"
  by (simp add: LRUCache_set_def)

lemma set_room:
  "int (Map_size (cache c)) < maxSize c \<Longrightarrow>
   LRUCache_set c key v now =
     (c\<lparr>cache := Map_set (cache c) key \<lparr>val = v, lastAccessed = now\<rparr>\<rparr>, None)"
  by (simp add: LRUCache_set_def)

lemma set_overflow:
  "maxSize c \<le> int (Map_size (cache c)) \<Longrightarrow> \<not> Map_has (cache c) key \<Longrightarrow>
   LRUCache_set c key v now =
     (let (c1, evicted) = LRUCache_evictLRU c
      in (c1\<lparr>cache := Map_set (cache c1) key \<lparr>val = v, lastAccessed = now\<rparr>\<rparr>, evicted))"
  by (simp add: LRUCache_set_def)

lemma Map_size_set_present:
  "key \<in> set (Map_keys m) \<Longrightarrow> Map_size (Map_set m key e) = Map_size m"
  using Map_keys_set_present[of key m e] by (metis Map_keys_def Map_size_def length_map)

lemma Map_size_set_absent:
  "key \<notin> set (Map_keys m) \<Longrightarrow> Map_size (Map_set m key e) = Suc (Map_size m)"
  using Map_keys_set_absent[of key m e]
  by (metis Map_keys_def Map_size_def length_map length_append_singleton)

lemma distinct_Map_set: "distinct (Map_keys m) \<Longrightarrow> distinct (Map_keys (Map_set m key e))"
  by (cases "key \<in> set (Map_keys m)") (simp_all add: Map_keys_set_present Map_keys_set_absent)

text \<open>What one call of set does to the size.\<close>

lemma set_size_cases:
  assumes "wellformed c"
  shows "wellformed (fst (LRUCache_set c key v now))
    \<and> maxSize (fst (LRUCache_set c key v now)) = maxSize c
    \<and> (LRUCache_size (fst (LRUCache_set c key v now)) = LRUCache_size c
       \<or> (LRUCache_size (fst (LRUCache_set c key v now)) = Suc (LRUCache_size c)
          \<and> (int (LRUCache_size c) < maxSize c \<or> cache c = [])))"
proof (cases "Map_has (cache c) key")
  case True
  then show ?thesis using assms
    by (simp add: set_present wellformed_def distinct_Map_set LRUCache_size_def
        Map_size_set_present Map_has_keys)
next
  case absent: False
  show ?thesis
  proof (cases "int (Map_size (cache c)) < maxSize c")
    case True
    then show ?thesis using assms absent
      by (simp add: set_room wellformed_def distinct_Map_set LRUCache_size_def
          Map_size_set_absent Map_has_keys)
  next
    case False
    then have ov: "maxSize c \<le> int (Map_size (cache c))" by simp
    show ?thesis
    proof (cases "cache c = []")
      case True
      then show ?thesis using ov absent
        by (simp add: set_overflow evictLRU_empty wellformed_def Map_keys_def
            LRUCache_size_def Map_size_def)
    next
      case False
      from evictLRU_nonempty[OF assms False] obtain pre k e post where d:
        "cache c = pre @ (k, e) # post"
        "LRUCache_evictLRU c = (c\<lparr>cache := pre @ post\<rparr>, Some k)" by blast
      have dk: "distinct (Map_keys (pre @ post))" and nk: "key \<notin> set (Map_keys (pre @ post))"
        using assms absent d(1) by (auto simp: wellformed_def Map_keys_def Map_has_keys)
      show ?thesis using ov absent d dk nk
        by (simp add: set_overflow wellformed_def distinct_Map_set LRUCache_size_def
            Map_size_set_absent) (simp add: Map_size_def)
    qed
  qed
qed

lemma Map_get_Some_keys: "Map_get m key = Some e \<Longrightarrow> key \<in> set (Map_keys m)"
  using Map_get_None[of m key] by auto

lemma get_size:
  "wellformed c \<Longrightarrow> wellformed (snd (LRUCache_get c key now))
    \<and> maxSize (snd (LRUCache_get c key now)) = maxSize c
    \<and> LRUCache_size (snd (LRUCache_get c key now)) = LRUCache_size c"
  by (auto simp: LRUCache_get_def wellformed_def distinct_Map_set LRUCache_size_def
      Map_size_set_present Map_get_Some_keys split: option.splits)

lemma apply_op_bounded:
  assumes "wellformed c" and "0 < maxSize c" and "int (LRUCache_size c) \<le> maxSize c"
  shows "wellformed (apply_op c op) \<and> maxSize (apply_op c op) = maxSize c
    \<and> int (LRUCache_size (apply_op c op)) \<le> maxSize c"
proof (cases op)
  case (OpGet key now)
  then show ?thesis using get_size[OF assms(1), of key now] assms by simp
next
  case (OpSet key v now)
  have "cache c = [] \<Longrightarrow> int (Suc (LRUCache_size c)) \<le> maxSize c"
    using assms(2) by (simp add: LRUCache_size_def Map_size_def)
  then show ?thesis using set_size_cases[OF assms(1), of key v now] assms OpSet
    by auto
next
  case (OpHas key)
  then show ?thesis using assms by simp
qed

lemma run_ops_bounded:
  "wellformed c \<Longrightarrow> 0 < maxSize c \<Longrightarrow> int (LRUCache_size c) \<le> maxSize c \<Longrightarrow>
   wellformed (run_ops c ops) \<and> maxSize (run_ops c ops) = maxSize c
    \<and> int (LRUCache_size (run_ops c ops)) \<le> maxSize c"
proof (induction ops arbitrary: c)
  case Nil
  then show ?case by simp
next
  case (Cons op ops)
  from apply_op_bounded[OF Cons.prems, of op] Cons.IH[of "apply_op c op"] Cons.prems(2)
  show ?case by simp
qed

section \<open>The capacity bound\<close>

text \<open>
  Claim C2. From a cache constructed with a positive capacity \<open>n\<close>, after every
  sequence of \<open>get\<close>, \<open>set\<close> and \<open>has\<close> calls (with any clock readings), and so after
  each call of the sequence (the first \<open>i\<close> calls, for every \<open>i\<close>), the number of
  entries is at most \<open>n\<close>.
\<close>

theorem capacity_invariant:
  "0 < n \<Longrightarrow>
   int (LRUCache_size (run_ops (LRUCache_new n) (take i ops))) \<le> n"
  using run_ops_bounded[of "LRUCache_new n" "take i ops"]
  by (simp add: LRUCache_new_def wellformed_def Map_keys_def LRUCache_size_def Map_size_def)

theorem capacity_invariant_witness:
  "(0::int) < 2 \<and>
   int (LRUCache_size (run_ops (LRUCache_new 2)
     (take 5 [OpSet ''u1'' (1::nat) 10, OpSet ''u2'' 2 20, OpGet ''u1'' 30,
              OpHas ''u2'', OpSet ''u3'' 3 40]))) \<le> 2
   \<and> LRUCache_size (run_ops (LRUCache_new 2)
     [OpSet ''u1'' (1::nat) 10, OpSet ''u2'' 2 20, OpGet ''u1'' 30,
              OpHas ''u2'', OpSet ''u3'' 3 40]) = 2"
  using capacity_invariant[of 2 5 "[OpSet ''u1'' (1::nat) 10, OpSet ''u2'' 2 20, OpGet ''u1'' 30,
              OpHas ''u2'', OpSet ''u3'' 3 40]"]
  by (simp add: LRUCache_new_def LRUCache_set_def LRUCache_get_def LRUCache_has_def
      LRUCache_size_def Map_size_def LRUCache_evictLRU_def)

section \<open>Facts about get and set\<close>

lemma Map_get_set_same: "Map_get (Map_set m key e) key = Some e"
  by (simp add: Map_get_set)

lemma Map_vals_touch:
  "Map_get m key = Some e \<Longrightarrow>
   map (\<lambda>x. val (snd x)) (Map_set m key (e\<lparr>lastAccessed := now\<rparr>)) = map (\<lambda>x. val (snd x)) m"
  by (induction m) (auto split: if_splits)

lemma get_hit:
  "Map_get (cache c) key = Some e \<Longrightarrow>
   LRUCache_get c key now =
     (Some (val e), c\<lparr>cache := Map_set (cache c) key (e\<lparr>lastAccessed := now\<rparr>)\<rparr>)"
  by (simp add: LRUCache_get_def)

lemma set_then_get:
  "fst (LRUCache_get (fst (LRUCache_set c key v now)) key now') = Some v"
  by (simp add: LRUCache_set_def LRUCache_get_def Map_get_set split: prod.splits)

section \<open>Which entry is evicted\<close>

text \<open>
  Claim C10. Evicting from an empty cache removes nothing and logs nothing. From a
  cache that holds entries, \<open>evictLRU\<close> removes exactly the first entry, in the
  iteration order of the map, whose \<open>lastAccessed\<close> is minimal: every entry before it
  is strictly younger and no entry after it is older, so among entries with the same
  minimal timestamp the first one goes. The scan replaces its candidate only on a
  strictly smaller timestamp (\<open>scanOldest\<close>).
\<close>

theorem evictLRU_first_oldest:
  "(cache c = [] \<longrightarrow> LRUCache_evictLRU c = (c, None)) \<and>
   (wellformed c \<and> cache c \<noteq> [] \<longrightarrow>
      (\<exists>pre k e post. cache c = pre @ (k, e) # post
        \<and> (\<forall>x\<in>set pre. lastAccessed e < lastAccessed (snd x))
        \<and> (\<forall>x\<in>set post. lastAccessed e \<le> lastAccessed (snd x))
        \<and> LRUCache_evictLRU c = (c\<lparr>cache := pre @ post\<rparr>, Some k)))"
  using evictLRU_empty[of c] evictLRU_nonempty[of c] by blast

theorem evictLRU_first_oldest_witness:
  "LRUCache_evictLRU \<lparr>cache = ([] :: (string, nat) jsmap), maxSize = 3\<rparr>
     = (\<lparr>cache = [], maxSize = 3\<rparr>, None)
   \<and> wellformed \<lparr>cache = [(''u1'', \<lparr>val = 1::nat, lastAccessed = 5\<rparr>),
                           (''u2'', \<lparr>val = 2, lastAccessed = 3\<rparr>),
                           (''u3'', \<lparr>val = 3, lastAccessed = 3\<rparr>)], maxSize = 3\<rparr>
   \<and> LRUCache_evictLRU \<lparr>cache = [(''u1'', \<lparr>val = 1::nat, lastAccessed = 5\<rparr>),
                           (''u2'', \<lparr>val = 2, lastAccessed = 3\<rparr>),
                           (''u3'', \<lparr>val = 3, lastAccessed = 3\<rparr>)], maxSize = 3\<rparr>
     = (\<lparr>cache = [(''u1'', \<lparr>val = 1, lastAccessed = 5\<rparr>),
                   (''u3'', \<lparr>val = 3, lastAccessed = 3\<rparr>)], maxSize = 3\<rparr>, Some ''u2'')"
  using evictLRU_first_oldest[of "\<lparr>cache = ([] :: (string, nat) jsmap), maxSize = 3\<rparr>"]
    evictLRU_first_oldest[of "\<lparr>cache = [(''u1'', \<lparr>val = 1::nat, lastAccessed = 5\<rparr>),
                           (''u2'', \<lparr>val = 2, lastAccessed = 3\<rparr>),
                           (''u3'', \<lparr>val = 3, lastAccessed = 3\<rparr>)], maxSize = 3\<rparr>"]
  by (simp add: wellformed_def Map_keys_def LRUCache_evictLRU_def)

section \<open>Overwriting a key that is present\<close>

text \<open>
  Claim C6. For every cache and every key that is present, \<open>set(key, v)\<close> evicts
  nothing (also when the cache is full): the keys and their order stay, the entry of
  the key becomes \<open>{ value: v, lastAccessed: now }\<close>, every other entry is untouched and
  the size is the same.
\<close>

theorem set_present_no_eviction:
  "LRUCache_has c key \<Longrightarrow>
     LRUCache_set c key v now =
       (c\<lparr>cache := Map_set (cache c) key \<lparr>val = v, lastAccessed = now\<rparr>\<rparr>, None)
   \<and> Map_keys (cache (fst (LRUCache_set c key v now))) = Map_keys (cache c)
   \<and> Map_get (cache (fst (LRUCache_set c key v now))) key = Some \<lparr>val = v, lastAccessed = now\<rparr>
   \<and> (\<forall>k. k \<noteq> key \<longrightarrow>
         Map_get (cache (fst (LRUCache_set c key v now))) k = Map_get (cache c) k)
   \<and> LRUCache_size (fst (LRUCache_set c key v now)) = LRUCache_size c"
  by (simp add: LRUCache_has_def set_present Map_has_keys Map_keys_set_present Map_get_set
      LRUCache_size_def Map_size_set_present)

theorem set_present_no_eviction_witness:
  "LRUCache_has \<lparr>cache = [(''u1'', \<lparr>val = 1::nat, lastAccessed = 5\<rparr>),
                           (''u2'', \<lparr>val = 2, lastAccessed = 3\<rparr>)], maxSize = 2\<rparr> ''u2''
   \<and> LRUCache_set \<lparr>cache = [(''u1'', \<lparr>val = 1::nat, lastAccessed = 5\<rparr>),
                           (''u2'', \<lparr>val = 2, lastAccessed = 3\<rparr>)], maxSize = 2\<rparr> ''u2'' 9 7
     = (\<lparr>cache = [(''u1'', \<lparr>val = 1::nat, lastAccessed = 5\<rparr>),
                           (''u2'', \<lparr>val = 9, lastAccessed = 7\<rparr>)], maxSize = 2\<rparr>, None)"
  using set_present_no_eviction[of "\<lparr>cache = [(''u1'', \<lparr>val = 1::nat, lastAccessed = 5\<rparr>),
                           (''u2'', \<lparr>val = 2, lastAccessed = 3\<rparr>)], maxSize = 2\<rparr>" "''u2''" 9 7]
  by (simp add: LRUCache_has_def)


section \<open>Eviction on overflow\<close>

lemma set_overflow_evicts:
  assumes "wellformed c" and "\<not> LRUCache_has c key"
    and "maxSize c \<le> int (LRUCache_size c)" and "cache c \<noteq> []"
  shows "\<exists>k e. snd (LRUCache_set c key v now) = Some k \<and> (k, e) \<in> set (cache c)
      \<and> (\<forall>x\<in>set (cache c). lastAccessed e \<le> lastAccessed (snd x))
      \<and> Map_keys (cache (fst (LRUCache_set c key v now)))
            = removeAll k (Map_keys (cache c)) @ [key]"
proof -
  from evictLRU_nonempty[OF assms(1,4)] obtain pre k e post where d:
    "cache c = pre @ (k, e) # post"
    "\<forall>x\<in>set pre. lastAccessed e < lastAccessed (snd x)"
    "\<forall>x\<in>set post. lastAccessed e \<le> lastAccessed (snd x)"
    "LRUCache_evictLRU c = (c\<lparr>cache := pre @ post\<rparr>, Some k)" by blast
  have nk: "key \<notin> set (Map_keys (pre @ post))"
    using assms(2) d(1) by (auto simp: LRUCache_has_def Map_keys_def Map_has_keys)
  have rm: "removeAll k (Map_keys (cache c)) = Map_keys (pre @ post)"
    using assms(1) d(1) by (auto simp: wellformed_def Map_keys_def)
  have min: "\<forall>x\<in>set (cache c). lastAccessed e \<le> lastAccessed (snd x)"
    using d(1-3) by (auto simp: less_imp_le)
  have "LRUCache_set c key v now =
      (c\<lparr>cache := Map_set (pre @ post) key \<lparr>val = v, lastAccessed = now\<rparr>\<rparr>, Some k)"
    using assms(2,3) d(4) by (simp add: set_overflow LRUCache_has_def LRUCache_size_def)
  then show ?thesis using d(1) min rm nk by (auto simp: Map_keys_set_absent)
qed

lemma set_overflow_empty:
  "cache c = [] \<Longrightarrow> snd (LRUCache_set c key v now) = None"
  by (simp add: LRUCache_set_def evictLRU_empty)

lemma touch_scenario_eq:
  "distinct [u1, u2, u3] \<Longrightarrow>
   touch_scenario u1 u2 u3 v1 v2 v3 t1 t2 t3 t4 = (if t2 < t3 then Some u2 else Some u1)"
  by (simp add: touch_scenario_def LRUCache_new_def LRUCache_set_def LRUCache_get_def
      LRUCache_evictLRU_def Map_size_def)

text \<open>
  Claim C1, as amended. When \<open>set\<close> inserts a new key into a cache that is at its
  bound and holds an entry, it evicts one key, the entry of that key has a
  \<open>lastAccessed\<close> that is minimal among the entries, and afterwards the keys are the
  old ones without the evicted key, followed by the new key. In the scenario
  (capacity 2; \<open>set(u1)\<close>, \<open>set(u2)\<close>, \<open>get(u1)\<close>, \<open>set(u3)\<close> with distinct keys) the
  evicted key is \<open>u2\<close> exactly when the clock reading of \<open>get(u1)\<close> is strictly later
  than the one of \<open>set(u2)\<close>; otherwise it is \<open>u1\<close>.
\<close>

theorem set_evicts_oldest:
  "(wellformed c \<and> \<not> LRUCache_has c key \<and> maxSize c \<le> int (LRUCache_size c)
      \<and> cache c \<noteq> [] \<longrightarrow>
      (\<exists>k e. snd (LRUCache_set c key v now) = Some k \<and> (k, e) \<in> set (cache c)
        \<and> (\<forall>x\<in>set (cache c). lastAccessed e \<le> lastAccessed (snd x))
        \<and> Map_keys (cache (fst (LRUCache_set c key v now)))
             = removeAll k (Map_keys (cache c)) @ [key]))
   \<and> (distinct [u1, u2, u3] \<longrightarrow>
        touch_scenario u1 u2 u3 v1 v2 v3 t1 t2 t3 t4 = (if t2 < t3 then Some u2 else Some u1))"
  using set_overflow_evicts[of c key v now] touch_scenario_eq[of u1 u2 u3 v1 v2 v3 t1 t2 t3 t4]
  by blast

text \<open>
  The scenario as the claim states it fails when the clock does not advance between
  the calls: with the same reading of \<open>Date.now()\<close> for all four calls both entries
  have the same timestamp and the first one in iteration order, \<open>u1\<close>, is evicted.
\<close>

theorem touch_scenario_same_clock_counterexample:
  "touch_scenario ''u1'' ''u2'' ''u3'' (1::nat) (2::nat) (3::nat) 1000 1000 1000 1000 = Some ''u1''
   \<and> touch_scenario ''u1'' ''u2'' ''u3'' (1::nat) (2::nat) (3::nat) 1000 1000 1000 1000 \<noteq> Some ''u2''"
  by (simp add: touch_scenario_def LRUCache_new_def LRUCache_set_def LRUCache_get_def
      LRUCache_evictLRU_def Map_size_def)

theorem set_evicts_oldest_witness:
  "wellformed \<lparr>cache = [(''u1'', \<lparr>val = 1::nat, lastAccessed = 30\<rparr>),
                        (''u2'', \<lparr>val = 2, lastAccessed = 20\<rparr>)], maxSize = 2\<rparr>
   \<and> \<not> LRUCache_has \<lparr>cache = [(''u1'', \<lparr>val = 1::nat, lastAccessed = 30\<rparr>),
                        (''u2'', \<lparr>val = 2, lastAccessed = 20\<rparr>)], maxSize = 2\<rparr> ''u3''
   \<and> (2::int) \<le> int (LRUCache_size \<lparr>cache = [(''u1'', \<lparr>val = 1::nat, lastAccessed = 30\<rparr>),
                        (''u2'', \<lparr>val = 2, lastAccessed = 20\<rparr>)], maxSize = 2\<rparr>)
   \<and> LRUCache_set \<lparr>cache = [(''u1'', \<lparr>val = 1::nat, lastAccessed = 30\<rparr>),
                        (''u2'', \<lparr>val = 2, lastAccessed = 20\<rparr>)], maxSize = 2\<rparr> ''u3'' 3 40
       = (\<lparr>cache = [(''u1'', \<lparr>val = 1::nat, lastAccessed = 30\<rparr>),
                        (''u3'', \<lparr>val = 3, lastAccessed = 40\<rparr>)], maxSize = 2\<rparr>, Some ''u2'')
   \<and> distinct [''u1'', ''u2'', ''u3'']
   \<and> touch_scenario ''u1'' ''u2'' ''u3'' (1::nat) (2::nat) (3::nat) 10 20 30 40 = Some ''u2''"
  using set_evicts_oldest[of "\<lparr>cache = [(''u1'', \<lparr>val = 1::nat, lastAccessed = 30\<rparr>),
                        (''u2'', \<lparr>val = 2, lastAccessed = 20\<rparr>)], maxSize = 2\<rparr>" "''u3''"
      3 40 "''u1''" "''u2''" "''u3''" "1::nat" "2::nat" "3::nat" 10 20 30 40]
  by (simp add: wellformed_def Map_keys_def LRUCache_has_def LRUCache_size_def Map_size_def
      LRUCache_set_def LRUCache_evictLRU_def)

section \<open>Repeated cache hits\<close>

lemma getOrCreateServer_hit:
  "Map_get (cache (serverCache st)) userId = Some e \<Longrightarrow>
   getOrCreateServer st userId email now =
     (val e, st\<lparr>serverCache := (serverCache st)\<lparr>cache :=
        Map_set (cache (serverCache st)) userId (e\<lparr>lastAccessed := now\<rparr>)\<rparr>\<rparr>)"
  by (simp add: getOrCreateServer_def get_hit)

text \<open>
  Claim C9. For a key that is present, two calls of \<open>get\<close> in succession both
  return the value stored for the key, and the keys and the stored values of the cache
  are the same afterwards (only \<open>lastAccessed\<close> of the entry changes): nothing is
  evicted. Through \<open>getOrCreateServer\<close> the same holds: both calls return the cached
  instance, no instance is constructed and no eviction is logged.
\<close>

theorem get_twice_same_instance:
  "(Map_get (cache c) key = Some e \<longrightarrow>
      (let (r1, c1) = LRUCache_get c key t1; (r2, c2) = LRUCache_get c1 key t2
       in r1 = Some (val e) \<and> r2 = Some (val e)
          \<and> Map_keys (cache c2) = Map_keys (cache c)
          \<and> map (\<lambda>x. val (snd x)) (cache c2) = map (\<lambda>x. val (snd x)) (cache c)))
   \<and> (Map_get (cache (serverCache st)) userId = Some e' \<longrightarrow>
      (let (s1, st1) = getOrCreateServer st userId email t1;
           (s2, st2) = getOrCreateServer st1 userId email t2
       in s1 = val e' \<and> s2 = val e'
          \<and> servers_built st2 = servers_built st
          \<and> eviction_log st2 = eviction_log st
          \<and> Map_keys (cache (serverCache st2)) = Map_keys (cache (serverCache st))
          \<and> map (\<lambda>x. val (snd x)) (cache (serverCache st2))
               = map (\<lambda>x. val (snd x)) (cache (serverCache st))))"
proof (intro conjI impI)
  assume h: "Map_get (cache c) key = Some e"
  have k: "key \<in> set (Map_keys (cache c))" using h by (rule Map_get_Some_keys)
  let ?m1 = "Map_set (cache c) key (e\<lparr>lastAccessed := t1\<rparr>)"
  have g1: "Map_get ?m1 key = Some (e\<lparr>lastAccessed := t1\<rparr>)" by (simp add: Map_get_set)
  have k1: "key \<in> set (Map_keys ?m1)" using g1 by (rule Map_get_Some_keys)
  show "let (r1, c1) = LRUCache_get c key t1; (r2, c2) = LRUCache_get c1 key t2
       in r1 = Some (val e) \<and> r2 = Some (val e)
          \<and> Map_keys (cache c2) = Map_keys (cache c)
          \<and> map (\<lambda>x. val (snd x)) (cache c2) = map (\<lambda>x. val (snd x)) (cache c)"
    using h g1 k k1 Map_vals_touch[OF h, of t1] Map_vals_touch[OF g1, of t2]
    by (simp add: get_hit Map_keys_set_present)
next
  assume h: "Map_get (cache (serverCache st)) userId = Some e'"
  have k: "userId \<in> set (Map_keys (cache (serverCache st)))" using h by (rule Map_get_Some_keys)
  let ?m1 = "Map_set (cache (serverCache st)) userId (e'\<lparr>lastAccessed := t1\<rparr>)"
  have g1: "Map_get ?m1 userId = Some (e'\<lparr>lastAccessed := t1\<rparr>)" by (simp add: Map_get_set)
  have k1: "userId \<in> set (Map_keys ?m1)" using g1 by (rule Map_get_Some_keys)
  show "let (s1, st1) = getOrCreateServer st userId email t1;
           (s2, st2) = getOrCreateServer st1 userId email t2
       in s1 = val e' \<and> s2 = val e'
          \<and> servers_built st2 = servers_built st
          \<and> eviction_log st2 = eviction_log st
          \<and> Map_keys (cache (serverCache st2)) = Map_keys (cache (serverCache st))
          \<and> map (\<lambda>x. val (snd x)) (cache (serverCache st2))
               = map (\<lambda>x. val (snd x)) (cache (serverCache st))"
    using h g1 k k1 Map_vals_touch[OF h, of t1] Map_vals_touch[OF g1, of t2]
    by (simp add: getOrCreateServer_hit Map_keys_set_present)
qed


theorem get_twice_same_instance_witness:
  "Map_get (cache \<lparr>cache = [(''u1'', \<lparr>val = 1::nat, lastAccessed = 5\<rparr>),
                             (''u2'', \<lparr>val = 2, lastAccessed = 6\<rparr>)], maxSize = 2\<rparr>) ''u2''
     = Some \<lparr>val = 2, lastAccessed = 6\<rparr>
   \<and> fst (LRUCache_get \<lparr>cache = [(''u1'', \<lparr>val = 1::nat, lastAccessed = 5\<rparr>),
                             (''u2'', \<lparr>val = 2, lastAccessed = 6\<rparr>)], maxSize = 2\<rparr> ''u2'' 7)
     = Some 2
   \<and> Map_get (cache (serverCache
        \<lparr>serverCache = \<lparr>cache = [(''u1'', \<lparr>val = \<lparr>ref = 0, boundUserId = ''u1'',
                                     boundEmail = ''a@example.org''\<rparr>, lastAccessed = 5\<rparr>)],
                          maxSize = 100\<rparr>,
         servers_built = 1, eviction_log = []\<rparr>)) ''u1''
     = Some \<lparr>val = \<lparr>ref = 0, boundUserId = ''u1'', boundEmail = ''a@example.org''\<rparr>,
             lastAccessed = 5\<rparr>
   \<and> fst (getOrCreateServer
        \<lparr>serverCache = \<lparr>cache = [(''u1'', \<lparr>val = \<lparr>ref = 0, boundUserId = ''u1'',
                                     boundEmail = ''a@example.org''\<rparr>, lastAccessed = 5\<rparr>)],
                          maxSize = 100\<rparr>,
         servers_built = 1, eviction_log = []\<rparr> ''u1'' ''a@example.org'' 7)
     = \<lparr>ref = 0, boundUserId = ''u1'', boundEmail = ''a@example.org''\<rparr>"
  using get_twice_same_instance[of
      "\<lparr>cache = [(''u1'', \<lparr>val = 1::nat, lastAccessed = 5\<rparr>),
                 (''u2'', \<lparr>val = 2, lastAccessed = 6\<rparr>)], maxSize = 2\<rparr>" "''u2''"
      "\<lparr>val = 2, lastAccessed = 6\<rparr>" 7 9
      "\<lparr>serverCache = \<lparr>cache = [(''u1'', \<lparr>val = \<lparr>ref = 0, boundUserId = ''u1'',
                                     boundEmail = ''a@example.org''\<rparr>, lastAccessed = 5\<rparr>)],
                          maxSize = 100\<rparr>,
         servers_built = 1, eviction_log = []\<rparr>" "''u1''"
      "\<lparr>val = \<lparr>ref = 0, boundUserId = ''u1'', boundEmail = ''a@example.org''\<rparr>,
             lastAccessed = 5\<rparr>" "''a@example.org''"]
  by (simp add: LRUCache_get_def getOrCreateServer_def)

section \<open>Construction with a capacity that is not positive\<close>

lemma apply_op_nonpositive:
  assumes "wellformed c" and "maxSize c \<le> 0" and "LRUCache_size c \<le> 1"
  shows "wellformed (apply_op c op) \<and> maxSize (apply_op c op) = maxSize c
    \<and> LRUCache_size (apply_op c op) \<le> 1"
proof (cases op)
  case (OpGet key now)
  then show ?thesis using get_size[OF assms(1), of key now] assms by simp
next
  case (OpSet key v now)
  have "cache c = [] \<Longrightarrow> LRUCache_size c = 0"
    by (simp add: LRUCache_size_def Map_size_def)
  then show ?thesis using set_size_cases[OF assms(1), of key v now] assms OpSet
    by auto
next
  case (OpHas key)
  then show ?thesis using assms by simp
qed

lemma run_ops_nonpositive:
  "wellformed c \<Longrightarrow> maxSize c \<le> 0 \<Longrightarrow> LRUCache_size c \<le> 1 \<Longrightarrow>
   wellformed (run_ops c ops) \<and> maxSize (run_ops c ops) = maxSize c
    \<and> LRUCache_size (run_ops c ops) \<le> 1"
proof (induction ops arbitrary: c)
  case Nil
  then show ?case by simp
next
  case (Cons op ops)
  from apply_op_nonpositive[OF Cons.prems, of op] Cons.IH[of "apply_op c op"] Cons.prems(2)
  show ?case by simp
qed

lemma Map_has_set: "Map_has (Map_set m key e) key"
  by (induction m) auto

lemma set_then_has: "LRUCache_has (fst (LRUCache_set c key v now)) key"
  by (simp add: LRUCache_has_def LRUCache_set_def Map_has_set split: prod.splits)

text \<open>
  Claim C5, as amended. The constructor checks nothing: for every \<open>n\<close> it returns the
  empty cache with \<open>maxSize = n\<close>. With \<open>n \<le> 0\<close> that cache is usable and behaves as
  one of capacity 1: after any sequence of operations it holds at most one entry, and a
  key that is set is present and is returned by the next \<open>get\<close>.
\<close>

theorem constructor_accepts_any_capacity:
  "LRUCache_new n = \<lparr>cache = [], maxSize = n\<rparr>
   \<and> (n \<le> 0 \<longrightarrow>
        LRUCache_size (run_ops (LRUCache_new n) ops) \<le> 1
        \<and> LRUCache_has (fst (LRUCache_set (run_ops (LRUCache_new n) ops) key v now)) key
        \<and> fst (LRUCache_get (fst (LRUCache_set (run_ops (LRUCache_new n) ops) key v now))
               key now') = Some v)"
proof -
  have "n \<le> 0 \<Longrightarrow> LRUCache_size (run_ops (LRUCache_new n) ops) \<le> 1"
    using run_ops_nonpositive[of "LRUCache_new n" ops]
    by (simp add: LRUCache_new_def wellformed_def Map_keys_def LRUCache_size_def Map_size_def)
  then show ?thesis by (simp add: set_then_get set_then_has) (simp add: LRUCache_new_def)
qed

theorem constructor_accepts_any_capacity_witness:
  "(0::int) \<le> 0
   \<and> LRUCache_size (run_ops (LRUCache_new 0)
        [OpSet ''u1'' (1::nat) 10, OpSet ''u2'' 2 20]) \<le> 1
   \<and> fst (LRUCache_get (fst (LRUCache_set (run_ops (LRUCache_new 0)
        [OpSet ''u1'' (1::nat) 10, OpSet ''u2'' 2 20]) ''u3'' 3 30)) ''u3'' 40) = Some 3"
  using constructor_accepts_any_capacity[of 0 "[OpSet ''u1'' (1::nat) 10, OpSet ''u2'' 2 20]"
      "''u3''" 3 30 40]
  by (simp add: LRUCache_new_def LRUCache_set_def LRUCache_get_def LRUCache_evictLRU_def
      LRUCache_size_def Map_size_def)

text \<open>
  Construction with capacity 0 does not fail: it gives a cache that stores a value and
  returns it.
\<close>

theorem zero_capacity_counterexample:
  "LRUCache_new 0 = \<lparr>cache = ([] :: (string, nat) jsmap), maxSize = 0\<rparr>
   \<and> LRUCache_set (LRUCache_new 0) ''u1'' (7::nat) 1
       = (\<lparr>cache = [(''u1'', \<lparr>val = 7, lastAccessed = 1\<rparr>)], maxSize = 0\<rparr>, None)
   \<and> fst (LRUCache_get (fst (LRUCache_set (LRUCache_new 0) ''u1'' (7::nat) 1)) ''u1'' 2)
       = Some 7"
  by (simp add: LRUCache_new_def LRUCache_set_def LRUCache_get_def LRUCache_evictLRU_def
      Map_size_def)

section \<open>The scene generation over JSON-RPC\<close>

lemma cleanupCode_X: "cleanupCode ''X'' = ''X''"
  by (simp add: cleanupCode_def trim_def is_space_def startsWith_def endsWith_def fence_def
      Let_def numeral_3_eq_3)

lemma enhance_X:
  "ai_run e emotion complexity = Inr (ResponseObject ''X'')
     \<or> ai_run e emotion complexity = Inr (ResponseOther ''X'') \<Longrightarrow>
   enhanceEmotionToThreeJS e emotion complexity = (Inr ''X'', [AiRun emotion complexity])"
  by (auto simp: enhanceEmotionToThreeJS_def cleanupCode_X)

lemma transport_tools_call:
  "handleHTTPTransport e (Inr (tools_call_request rid name args)) =
     handleToolsCall e (Some rid)
       (Some (JObj [(''name'', JStr name), (''arguments'', args)]))"
  by (simp add: handleHTTPTransport_def tools_call_request_def)





text \<open>
  Claim C4, the failing input. The registered input schema rejects an empty emotion,
  but \<open>handleToolsCall\<close> does not consult it: for the arguments \<open>{emotion: ""}\<close> it
  calls the collaborator with the empty emotion and the default complexity 5 whatever
  the collaborators are, and with an \<open>ai.run\<close> that answers \<open>X\<close> the response is an
  ordinary result, without an error flag.
\<close>

theorem empty_emotion_reaches_collaborator:
  "\<not> inputSchema_generate_mood_scene (JObj [(''emotion'', JStr [])])
   \<and> snd (handleHTTPTransport e
        (Inr (tools_call_request rid ''generate_mood_scene'' (JObj [(''emotion'', JStr [])]))))
      = [AiRun (Some (JStr [])) (JNum 5)]
   \<and> handleHTTPTransport (stub_env (Inr (ResponseObject ''X'')) asset)
        (Inr (tools_call_request (JNum 7) ''generate_mood_scene'' (JObj [(''emotion'', JStr [])])))
      = (jsonRpcResponse (Some (JNum 7))
           (JObj [(''content'', text_content ''<json>''),
                  (''structuredContent'',
                     JObj [(''code'', JStr ''X''), (''emotion'', JStr []),
                           (''height'', JNum 600)])]) None,
         [AiRun (Some (JStr [])) (JNum 5)])"
proof (intro conjI)
  show "\<not> inputSchema_generate_mood_scene (JObj [(''emotion'', JStr [])])"
    by (simp add: inputSchema_generate_mood_scene_def)
  show "snd (handleHTTPTransport e
        (Inr (tools_call_request rid ''generate_mood_scene'' (JObj [(''emotion'', JStr [])]))))
      = [AiRun (Some (JStr [])) (JNum 5)]"
    by (simp add: Let_def transport_tools_call handleToolsCall_def or_default_def optional_member_def
        enhanceEmotionToThreeJS_def)
  have "enhanceEmotionToThreeJS (stub_env (Inr (ResponseObject ''X'')) asset) (Some (JStr [])) (JNum 5)
      = (Inr ''X'', [AiRun (Some (JStr [])) (JNum 5)])"
    by (rule enhance_X) (simp add: stub_env_def)
  then show "handleHTTPTransport (stub_env (Inr (ResponseObject ''X'')) asset)
        (Inr (tools_call_request (JNum 7) ''generate_mood_scene'' (JObj [(''emotion'', JStr [])])))
      = (jsonRpcResponse (Some (JNum 7))
           (JObj [(''content'', text_content ''<json>''),
                  (''structuredContent'',
                     JObj [(''code'', JStr ''X''), (''emotion'', JStr []),
                           (''height'', JNum 600)])]) None,
         [AiRun (Some (JStr [])) (JNum 5)])"
    by (simp add: Let_def transport_tools_call handleToolsCall_def or_default_def optional_member_def
        scene_result_def object_literal_def) (simp add: stub_env_def)
qed

section \<open>The id of the response\<close>

text \<open>
  Every response of the transport to a body that parsed to a value other than \<open>null\<close>
  carries the id of the request, with one exception: a \<open>resources/read\<close> whose asset
  loader throws.
\<close>

lemma jsonRpcResponse_id: "member (body (jsonRpcResponse rid result err)) ''id'' = rid"
  by (cases rid; cases err) (auto simp: jsonRpcResponse_def object_literal_def)

lemma handleToolsCall_id: "member (body (fst (handleToolsCall e rid params))) ''id'' = rid"
  by (simp add: handleToolsCall_def Let_def jsonRpcResponse_id split: prod.splits sum.splits)

lemma transport_echoes_id:
  assumes "j \<noteq> JNull"
  shows "member (body (fst (handleHTTPTransport e (Inr j)))) ''id'' = member j ''id''
    \<or> (member j ''method'' = Some (JStr ''resources/read'')
       \<and> (\<exists>message. loadHtml e ''/moodboard.html'' = Inl message)
       \<and> member (body (fst (handleHTTPTransport e (Inr j)))) ''id'' = Some (JStr ''error''))"
proof -
  have rr: "(\<exists>r calls. handleResourcesRead e rid params = (Inr r, calls) \<and> member (body r) ''id'' = rid)
      \<or> (\<exists>message calls. handleResourcesRead e rid params = (Inl message, calls)
           \<and> loadHtml e ''/moodboard.html'' = Inl message)" for rid params
    by (auto simp: handleResourcesRead_def Let_def jsonRpcResponse_id split: sum.splits)
  show ?thesis
    using assms rr[of "member j ''id''" "member j ''params''"]
    by (cases j)
      (auto simp: handleHTTPTransport_def Let_def jsonRpcResponse_id handleToolsCall_id
        handleInitialize_def handlePing_def handleToolsList_def handleResourcesList_def
        handlePromptsList_def parse_error_response_def)
qed

text \<open>
  Claim C7, the failing input. A well-formed \<open>resources/read\<close> request with the id 7,
  when \<open>loadHtml\<close> throws: the error leaves \<open>handleResourcesRead\<close>, reaches the
  \<open>catch\<close> of \<open>handleHTTPTransport\<close> that is written for a body that does not parse,
  and the response is the parse error \<open>-32700\<close> with the id \<open>"error"\<close> instead of 7.
\<close>

theorem handler_exception_loses_id:
  "handleHTTPTransport (stub_env ai (Inl ''Asset not found''))
     (Inr (JObj [(''jsonrpc'', JStr ''2.0''), (''id'', JNum 7),
                 (''method'', JStr ''resources/read''),
                 (''params'', JObj [(''uri'', JStr ''ui://3d-moodboard/moodboard.html'')])]))
   = (\<lparr>status = 200,
       body = JObj [(''jsonrpc'', JStr ''2.0''), (''id'', JStr ''error''),
                    (''error'', JObj [(''code'', JNum (- 32700)),
                       (''message'', JStr ''Parse error: Asset not found'')])]\<rparr>,
      [LoadHtml ''/moodboard.html''])"
  by (simp add: handleHTTPTransport_def handleResourcesRead_def Let_def or_default_def
      moodboard_uri_def parse_error_response_def jsonRpcResponse_def object_literal_def
      stub_env_def)

section \<open>A malformed envelope and the cache\<close>














end
